theory Spec2Isabelle
  imports Main "HOL-Library.Sublist"
begin

section \<open>Python strings\<close>

text \<open>
  A Python \<^verbatim>\<open>str\<close> is a sequence of Unicode code points: slicing (\<^verbatim>\<open>text[5:]\<close>),
  \<^verbatim>\<open>startswith\<close> and \<^verbatim>\<open>strip\<close> all count code points, and the commands of
  \<^verbatim>\<open>main.py\<close> are written in Chinese. A string is therefore a list of code points
  (natural numbers), not a list of bytes.
\<close>

type_synonym ustr = "nat list"

definition ascii :: "string \<Rightarrow> ustr" where
  "ascii s = map of_char s"

text \<open>The code points for which Python's \<^verbatim>\<open>str.isspace\<close> holds.\<close>

definition isspace :: "nat \<Rightarrow> bool" where
  "isspace c \<longleftrightarrow>
     (9 \<le> c \<and> c \<le> 13) \<or> (28 \<le> c \<and> c \<le> 32) \<or> c = 133 \<or> c = 160 \<or> c = 5760 \<or>
     (8192 \<le> c \<and> c \<le> 8202) \<or> c = 8232 \<or> c = 8233 \<or> c = 8239 \<or> c = 8287 \<or> c = 12288"

text \<open>\<^verbatim>\<open>s.strip()\<close>: leading and trailing whitespace removed.\<close>

definition strip :: "ustr \<Rightarrow> ustr" where
  "strip s = rev (dropWhile isspace (rev (dropWhile isspace s)))"

text \<open>\<^verbatim>\<open>s.startswith(p)\<close>.\<close>

definition startswith :: "ustr \<Rightarrow> ustr \<Rightarrow> bool" where
  "startswith s p = prefix p s"

text \<open>Truthiness of a value that is \<^verbatim>\<open>None\<close> or a string: \<^verbatim>\<open>if url:\<close>.\<close>

definition truthy :: "ustr option \<Rightarrow> bool" where
  "truthy v = (case v of None \<Rightarrow> False | Some t \<Rightarrow> t \<noteq> [])"

section \<open>String constants of \<^verbatim>\<open>main.py\<close>\<close>

text \<open>The five commands, \<^verbatim>\<open>main.py\<close> line 62, in the order of the list.\<close>

definition cmd_help :: ustr where
  "cmd_help = [47, 25351, 20196, 35498, 26126]"

definition cmd_system :: ustr where
  "cmd_system = [47, 31995, 32113, 35338, 24687]"

definition cmd_clear :: ustr where
  "cmd_clear = [47, 28165, 38500]"

definition cmd_image :: ustr where
  "cmd_image = [47, 22294, 20687]"

definition cmd_gpt :: ustr where
  "cmd_gpt = ascii ''/GPT''"

definition commands :: "ustr list" where
  "commands = [cmd_help, cmd_system, cmd_clear, cmd_image, cmd_gpt]"

text \<open>The reply texts.\<close>

definition help_text :: ustr where
  "help_text =
    [25351, 20196, 65306, 10, 47, 31995, 32113, 35338, 24687, 32, 43, 32, 80, 114, 111, 109,
     112, 116, 10, 128073, 32, 80, 114, 111, 109, 112, 116, 32, 21487, 20197, 21629, 20196,
     27231, 22120, 20154, 25198, 28436, 26576, 20491, 35282, 33394, 65292, 20363, 22914,
     65306, 35531, 20320, 25198, 28436, 25797, 38263, 20570, 32317, 32080, 30340, 20154, 10,
     10, 47, 28165, 38500, 10, 128073, 32, 30070, 21069, 27599, 19968, 27425, 37117, 26371,
     32000, 37636, 26368, 24460, 20841, 31558, 27511, 21490, 32000, 37636, 65292, 36889,
     20491, 25351, 20196, 33021, 22816, 28165, 38500, 27511, 21490, 35338, 24687, 10, 10,
     47, 22294, 20687, 32, 43, 32, 80, 114, 111, 109, 112, 116, 10, 128073, 32, 26371,
     35519, 29992, 32, 68, 65, 76, 76, 8729, 69, 32, 50, 32, 77, 111, 100, 101, 108, 65292,
     20197, 25991, 23383, 29983, 25104, 22294, 20687, 10, 10, 47, 71, 80, 84, 32, 43, 32,
     80, 114, 111, 109, 112, 116, 10, 128073, 32, 35519, 29992, 32, 67, 104, 97, 116, 71,
     80, 84, 32, 20197, 25991, 23383, 22238, 35206, 10, 10, 35486, 38899, 36664, 20837, 10,
     128073, 32, 26371, 35519, 29992, 32, 87, 104, 105, 115, 112, 101, 114, 32, 27169,
     22411, 65292, 20808, 23559, 35486, 38899, 36681, 25563, 25104, 25991, 23383, 65292,
     20877, 35519, 29992, 32, 67, 104, 97, 116, 71, 80, 84, 32, 20197, 25991, 23383, 22238,
     35206]"

definition system_ok_text :: ustr where
  "system_ok_text = [36664, 20837, 25104, 21151]"

definition clear_ok_text :: ustr where
  "clear_ok_text = [27511, 21490, 35338, 24687, 28165, 38500, 25104, 21151]"

definition gpt_prompt_required_text :: ustr where
  "gpt_prompt_required_text =
    [35531, 22312, 32, 47, 71, 80, 84, 32, 25351, 20196, 24460, 25552, 20379, 20839, 23481,
     12290]"

definition no_website_text :: ustr where
  "no_website_text = [28961, 27861, 25736, 21462, 27492, 32178, 31449, 25991, 23383]"

definition incorrect_key_prefix :: ustr where
  "incorrect_key_prefix = ascii ''Incorrect API key provided''"

definition overloaded_prefix :: ustr where
  "overloaded_prefix = ascii ''That model is currently overloaded with other requests.''"

definition incorrect_key_text :: ustr where
  "incorrect_key_text =
    [79, 112, 101, 110, 65, 73, 32, 65, 80, 73, 32, 75, 101, 121, 32, 26377, 35492, 65292,
     35531, 27298, 26597, 37197, 32622, 12290]"

definition overloaded_text :: ustr where
  "overloaded_text =
    [24050, 36229, 36942, 36000, 33655, 65292, 35531, 31245, 24460, 20877, 35430]"

definition role_system :: ustr where
  "role_system = ascii ''system''"

definition role_user :: ustr where
  "role_user = ascii ''user''"

definition role_assistant :: ustr where
  "role_assistant = ascii ''assistant''"

definition whisper_1 :: ustr where
  "whisper_1 = ascii ''whisper-1''"

definition gpt_35_turbo :: ustr where
  "gpt_35_turbo = ascii ''gpt-3.5-turbo''"

section \<open>Conversation memory\<close>

text \<open>
  \<^verbatim>\<open>main.py\<close> imports the class \<^verbatim>\<open>Memory\<close> from \<^verbatim>\<open>src/memory.py\<close>, which is
  not among the sources. Its data and its four operations are modelled from sections 3
  and 4.2 of the specification; every definition of this section is such a model.
\<close>

record entry =
  role :: ustr
  content :: ustr

record user_memory =
  user_id :: ustr
  system_message :: ustr
  history :: "entry list"
  max_turns :: nat

text \<open>
  The process-wide object built at \<^verbatim>\<open>main.py\<close> line 39 by
  \<^verbatim>\<open>Memory(system_message=..., memory_message_count=2)\<close>: the two configured defaults
  and one record per user that has been seen.
\<close>

record Memory =
  default_system_message :: ustr
  memory_message_count :: nat
  records :: "ustr \<rightharpoonup> user_memory"

definition new_Memory :: "ustr \<Rightarrow> nat \<Rightarrow> Memory" where
  "new_Memory sm n = \<lparr>default_system_message = sm, memory_message_count = n, records = Map.empty\<rparr>"

text \<open>
  Modelled from the spec: the record auto-created for an unseen user of the absent
  class Memory, "empty history, process-configured default system message,
  process-configured max_turns".
\<close>

definition fresh_record :: "Memory \<Rightarrow> ustr \<Rightarrow> user_memory" where
  "fresh_record m u =
     \<lparr>user_id = u, system_message = default_system_message m, history = [],
      max_turns = memory_message_count m\<rparr>"

text \<open>
  Modelled from the spec: lazy creation in the absent class Memory, "created lazily on
  first interaction from a given user".
\<close>

definition lookup :: "Memory \<Rightarrow> ustr \<Rightarrow> user_memory" where
  "lookup m u = (case records m u of None \<Rightarrow> fresh_record m u | Some r \<Rightarrow> r)"

text \<open>
  Modelled from the spec: the sequence the absent Memory.get hands to a downstream
  call, "system message followed by history".
\<close>

definition materialize :: "user_memory \<Rightarrow> entry list" where
  "materialize r = \<lparr>role = role_system, content = system_message r\<rparr> # history r"

text \<open>
  Modelled from the spec: the absent Memory.get, "returns system message followed by
  history, creating a fresh record with the default system message if none exists".
\<close>

definition memory_get :: "Memory \<Rightarrow> ustr \<Rightarrow> entry list \<times> Memory" where
  "memory_get m u =
     (let r = lookup m u in (materialize r, m\<lparr>records := (records m)(u \<mapsto> r)\<rparr>))"

text \<open>
  Modelled from the spec: the sliding window of the absent Memory.append, "dropping
  the oldest user/assistant pair once the configured turn count is exceeded".
\<close>

definition evict :: "nat \<Rightarrow> entry list \<Rightarrow> entry list" where
  "evict n h = (if 2 * n < length h then drop 2 h else h)"

text \<open>
  Modelled from the spec: the absent Memory.append, "adds an entry; enforces the
  sliding-window invariant".
\<close>

definition memory_append :: "Memory \<Rightarrow> ustr \<Rightarrow> ustr \<Rightarrow> ustr \<Rightarrow> Memory" where
  "memory_append m u ro c =
     (let r = lookup m u
      in m\<lparr>records := (records m)
            (u \<mapsto> r\<lparr>history := evict (max_turns r) (history r @ [\<lparr>role = ro, content = c\<rparr>])\<rparr>)\<rparr>)"

text \<open>
  Modelled from the spec: the absent Memory.change_system_message, "upserts the system
  message without touching history".
\<close>

definition memory_change_system_message :: "Memory \<Rightarrow> ustr \<Rightarrow> ustr \<Rightarrow> Memory" where
  "memory_change_system_message m u t =
     (let r = lookup m u in m\<lparr>records := (records m)(u \<mapsto> r\<lparr>system_message := t\<rparr>)\<rparr>)"

text \<open>
  Modelled from the spec: the absent Memory.remove, "clears history (not the whole
  record) for that user".
\<close>

definition memory_remove :: "Memory \<Rightarrow> ustr \<Rightarrow> Memory" where
  "memory_remove m u =
     (let r = lookup m u in m\<lparr>records := (records m)(u \<mapsto> r\<lparr>history := []\<rparr>)\<rparr>)"

section \<open>Outcomes, events and actions\<close>

text \<open>
  Any Python call either returns a value or raises; \<open>Raises t\<close> carries \<^verbatim>\<open>str(e)\<close> of
  the exception, which is all the handlers read of it.
\<close>

datatype 'a outcome = Raises ustr | Returns 'a

text \<open>
  The calls \<^verbatim>\<open>main.py\<close> makes on its collaborators \<^verbatim>\<open>model\<close>, \<^verbatim>\<open>website\<close>,
  \<^verbatim>\<open>youtube\<close> and the two readers, with their arguments. The model identifier is an
  optional string, since \<^verbatim>\<open>os.getenv\<close> gives \<^verbatim>\<open>None\<close> for an unset variable.
\<close>

datatype call =
    ImageGenerations ustr
  | ChatCompletions "entry list" "ustr option"
  | AudioTranscriptions ustr ustr
  | GetUrlFromText ustr
  | RetrieveVideoId ustr
  | GetTranscriptChunks "ustr option"
  | YoutubeSummarize "ustr option" "ustr list"
  | GetContentFromUrl "ustr option"
  | WebsiteSummarize "ustr option" "ustr list"

text \<open>
  A log of what a handler did, in order: each operation on the memory and each call on a
  collaborator, the latter with whether it succeeded (it returned, and with
  \<^verbatim>\<open>is_successful\<close> true where it returns that flag). The log is not part of the
  program; it makes the order of effects a value theorems can speak about.
\<close>

datatype event =
    MemAppend ustr ustr ustr
  | MemGet ustr
  | MemRemove ustr
  | MemChangeSystemMessage ustr ustr
  | Cap call bool

record state =
  memory :: Memory
  events :: "event list"

type_synonym 'a action = "state \<Rightarrow> 'a outcome \<times> state"

definition returns :: "'a \<Rightarrow> 'a action" where
  "returns x s = (Returns x, s)"

definition raise :: "ustr \<Rightarrow> 'a action" where
  "raise e s = (Raises e, s)"

text \<open>Sequencing: an exception skips the rest, and keeps the state reached so far.\<close>

definition and_then :: "'a action \<Rightarrow> ('a \<Rightarrow> 'b action) \<Rightarrow> 'b action" where
  "and_then a f s = (case a s of (Raises e, s') \<Rightarrow> (Raises e, s') | (Returns x, s') \<Rightarrow> f x s')"

text \<open>An expression that may raise and has no other effect, such as a subscript.\<close>

definition compute :: "'a outcome \<Rightarrow> 'a action" where
  "compute r s = (r, s)"

text \<open>A call on a collaborator: its outcome is given by the environment, and it is logged.\<close>

definition succeeded :: "('a \<Rightarrow> bool) \<Rightarrow> 'a outcome \<Rightarrow> bool" where
  "succeeded ok r = (case r of Raises e \<Rightarrow> False | Returns x \<Rightarrow> ok x)"

definition invoke :: "call \<Rightarrow> ('a \<Rightarrow> bool) \<Rightarrow> 'a outcome \<Rightarrow> 'a action" where
  "invoke c ok r s = (r, s\<lparr>events := events s @ [Cap c (succeeded ok r)]\<rparr>)"

definition is_successful :: "bool \<times> 'a \<times> ustr \<Rightarrow> bool" where
  "is_successful t = fst t"

definition returned :: "'a \<Rightarrow> bool" where
  "returned x = True"

text \<open>The four operations of the memory, as actions.\<close>

definition append_action :: "ustr \<Rightarrow> ustr \<Rightarrow> ustr \<Rightarrow> unit action" where
  "append_action u ro c s =
     (Returns (), s\<lparr>memory := memory_append (memory s) u ro c,
                    events := events s @ [MemAppend u ro c]\<rparr>)"

definition get_action :: "ustr \<Rightarrow> (entry list) action" where
  "get_action u s =
     (case memory_get (memory s) u of
        (h, m') \<Rightarrow> (Returns h, s\<lparr>memory := m', events := events s @ [MemGet u]\<rparr>))"

definition remove_action :: "ustr \<Rightarrow> unit action" where
  "remove_action u s =
     (Returns (), s\<lparr>memory := memory_remove (memory s) u,
                    events := events s @ [MemRemove u]\<rparr>)"

definition change_system_message_action :: "ustr \<Rightarrow> ustr \<Rightarrow> unit action" where
  "change_system_message_action u t s =
     (Returns (), s\<lparr>memory := memory_change_system_message (memory s) u t,
                    events := events s @ [MemChangeSystemMessage u t]\<rparr>)"

section \<open>The collaborators\<close>

text \<open>
  \<^verbatim>\<open>OpenAIModel\<close>, \<^verbatim>\<open>Website\<close>, \<^verbatim>\<open>Youtube\<close>, the two readers and
  \<^verbatim>\<open>get_role_and_content\<close> are imported by \<^verbatim>\<open>main.py\<close> and reach external
  services; the handlers are modelled for every behaviour of them, given as a record of
  functions. \<open>'r\<close> is the type of a response object of the model. A call of the
  model or of a reader returns the triple
  \<^verbatim>\<open>(is_successful, response, error_message)\<close>.
\<close>

record 'r env =
  image_generations :: "ustr \<Rightarrow> (bool \<times> 'r \<times> ustr) outcome"
  chat_completions :: "entry list \<Rightarrow> ustr option \<Rightarrow> (bool \<times> 'r \<times> ustr) outcome"
  audio_transcriptions :: "ustr \<Rightarrow> ustr \<Rightarrow> (bool \<times> 'r \<times> ustr) outcome"
  get_url_from_text :: "ustr \<Rightarrow> ustr option outcome"
  retrieve_video_id :: "ustr \<Rightarrow> ustr option outcome"
  get_transcript_chunks :: "ustr option \<Rightarrow> (bool \<times> ustr list \<times> ustr) outcome"
  youtube_summarize :: "ustr option \<Rightarrow> ustr list \<Rightarrow> (bool \<times> 'r \<times> ustr) outcome"
  get_content_from_url :: "ustr option \<Rightarrow> ustr list outcome"
  website_summarize :: "ustr option \<Rightarrow> ustr list \<Rightarrow> (bool \<times> 'r \<times> ustr) outcome"
  get_role_and_content :: "'r \<Rightarrow> (ustr \<times> ustr) outcome"
  data_0_url :: "'r \<Rightarrow> ustr outcome"
  text_of :: "'r \<Rightarrow> ustr outcome"
  OPENAI_MODEL_ENGINE :: "ustr option"

text \<open>\<^verbatim>\<open>if not is_successful: raise Exception(error_message)\<close>.\<close>

definition raise_unless :: "bool \<Rightarrow> ustr \<Rightarrow> unit action" where
  "raise_unless ok error_message = (if \<not> ok then raise error_message else returns ())"

section \<open>The text handler\<close>

datatype outgoing =
    TextSendMessage ustr
  | ImageSendMessage ustr ustr

text \<open>
  The image command \<open>cmd_image\<close>, lines 77 to 88. The two arguments of \<open>ImageSendMessage\<close> are
  \<^verbatim>\<open>original_content_url\<close> and \<^verbatim>\<open>preview_image_url\<close>.
\<close>

definition image_command :: "'r env \<Rightarrow> ustr \<Rightarrow> ustr \<Rightarrow> outgoing action" where
  "image_command env uid text =
     (let prompt = strip (drop 3 text) in
      and_then (append_action uid role_user prompt) (\<lambda>_.
      and_then (invoke (ImageGenerations prompt) is_successful (image_generations env prompt))
        (\<lambda>(ok, response, error_message).
      and_then (raise_unless ok error_message) (\<lambda>_.
      and_then (compute (data_0_url env response)) (\<lambda>url.
      let msg = ImageSendMessage url url in
      and_then (append_action uid role_assistant url) (\<lambda>_.
      returns msg))))))"

text \<open>
  The three ways the command \<open>cmd_gpt\<close> produces \<^verbatim>\<open>msg\<close>, \<^verbatim>\<open>role\<close> and
  \<^verbatim>\<open>response\<close>: lines 99 to 107, 109 to 117 and 119 to 123.
\<close>

definition summarize_youtube :: "'r env \<Rightarrow> ustr \<Rightarrow> (outgoing \<times> ustr \<times> ustr) action" where
  "summarize_youtube env prompt =
     and_then (invoke (RetrieveVideoId prompt) returned (retrieve_video_id env prompt)) (\<lambda>video_id.
     and_then (invoke (GetTranscriptChunks video_id) is_successful
                 (get_transcript_chunks env video_id))
       (\<lambda>(ok, chunks, error_message).
     and_then (raise_unless ok error_message) (\<lambda>_.
     and_then (invoke (YoutubeSummarize (OPENAI_MODEL_ENGINE env) chunks) is_successful
                 (youtube_summarize env (OPENAI_MODEL_ENGINE env) chunks))
       (\<lambda>(ok, response, error_message).
     and_then (raise_unless ok error_message) (\<lambda>_.
     and_then (compute (get_role_and_content env response)) (\<lambda>(ro, response).
     returns (TextSendMessage response, ro, response)))))))"

definition summarize_website ::
  "'r env \<Rightarrow> ustr option \<Rightarrow> (outgoing \<times> ustr \<times> ustr) action" where
  "summarize_website env url =
     and_then (invoke (GetContentFromUrl url) returned (get_content_from_url env url)) (\<lambda>chunks.
     and_then (if length chunks = 0 then raise no_website_text else returns ()) (\<lambda>_.
     and_then (invoke (WebsiteSummarize (OPENAI_MODEL_ENGINE env) chunks) is_successful
                 (website_summarize env (OPENAI_MODEL_ENGINE env) chunks))
       (\<lambda>(ok, response, error_message).
     and_then (raise_unless ok error_message) (\<lambda>_.
     and_then (compute (get_role_and_content env response)) (\<lambda>(ro, response).
     returns (TextSendMessage response, ro, response))))))"

definition chat_reply :: "'r env \<Rightarrow> ustr \<Rightarrow> (outgoing \<times> ustr \<times> ustr) action" where
  "chat_reply env uid =
     and_then (get_action uid) (\<lambda>messages.
     and_then (invoke (ChatCompletions messages (OPENAI_MODEL_ENGINE env)) is_successful
                 (chat_completions env messages (OPENAI_MODEL_ENGINE env)))
       (\<lambda>(ok, response, error_message).
     and_then (raise_unless ok error_message) (\<lambda>_.
     and_then (compute (get_role_and_content env response)) (\<lambda>(ro, response).
     returns (TextSendMessage response, ro, response)))))"

text \<open>The command \<open>cmd_gpt\<close>, lines 90 to 124.\<close>

definition gpt_command :: "'r env \<Rightarrow> ustr \<Rightarrow> ustr \<Rightarrow> outgoing action" where
  "gpt_command env uid text =
     (let prompt = strip (drop 4 text) in
      if prompt = [] then returns (TextSendMessage gpt_prompt_required_text)
      else
        and_then (append_action uid role_user prompt) (\<lambda>_.
        and_then (invoke (GetUrlFromText prompt) returned (get_url_from_text env prompt)) (\<lambda>url.
        and_then
          (if truthy url then
             and_then (invoke (RetrieveVideoId prompt) returned (retrieve_video_id env prompt))
               (\<lambda>video_id.
             if truthy video_id then summarize_youtube env prompt
             else summarize_website env url)
           else chat_reply env uid)
          (\<lambda>(msg, ro, response).
        and_then (append_action uid ro response) (\<lambda>_.
        returns msg)))))"

text \<open>
  How the body of the \<^verbatim>\<open>try\<close> ends when it does not raise: by the \<^verbatim>\<open>return\<close> of
  line 127, or by falling out of the statement with \<^verbatim>\<open>msg\<close> assigned, or (were no
  branch of the inner chain taken) with \<^verbatim>\<open>msg\<close> never assigned.
\<close>

datatype ending = ReturnedEarly | Fell outgoing | FellUnbound

text \<open>The body of the \<^verbatim>\<open>try\<close>, lines 61 to 127, on the stripped text.\<close>

definition text_try :: "'r env \<Rightarrow> ustr \<Rightarrow> ustr \<Rightarrow> ending action" where
  "text_try env uid text =
     (if list_ex (\<lambda>cmd. startswith text cmd) commands then
        if startswith text cmd_help then
          returns (Fell (TextSendMessage help_text))
        else if startswith text cmd_system then
          and_then (change_system_message_action uid (strip (drop 5 text))) (\<lambda>_.
          returns (Fell (TextSendMessage system_ok_text)))
        else if startswith text cmd_clear then
          and_then (remove_action uid) (\<lambda>_.
          returns (Fell (TextSendMessage clear_ok_text)))
        else if startswith text cmd_image then
          and_then (image_command env uid text) (\<lambda>msg. returns (Fell msg))
        else if startswith text cmd_gpt then
          and_then (gpt_command env uid text) (\<lambda>msg. returns (Fell msg))
        else returns FellUnbound
      else returns ReturnedEarly)"

text \<open>The \<^verbatim>\<open>except\<close> clause of the text handler, lines 131 to 136.\<close>

definition text_error_message :: "ustr \<Rightarrow> outgoing" where
  "text_error_message e =
     (if startswith e incorrect_key_prefix then TextSendMessage incorrect_key_text
      else if startswith e overloaded_prefix then TextSendMessage overloaded_text
      else TextSendMessage e)"

text \<open>
  What a handler leaves behind: the message handed to \<^verbatim>\<open>reply_message\<close>, if it gets
  there, or the exception that leaves the handler.
\<close>

datatype reply = NoReply | Reply outgoing | Escapes ustr

definition unbound_msg :: ustr where
  "unbound_msg = ascii ''local variable msg referenced before assignment''"

text \<open>
  \<^verbatim>\<open>handle_text_message\<close>, lines 55 to 137, for the user and text of the event and
  the memory at the time: the reply, the memory afterwards and the log of the run.
\<close>

definition handle_text_message ::
  "'r env \<Rightarrow> ustr \<Rightarrow> ustr \<Rightarrow> Memory \<Rightarrow> reply \<times> Memory \<times> event list" where
  "handle_text_message env uid raw_text m =
     (let text = strip raw_text in
      case text_try env uid text \<lparr>memory = m, events = []\<rparr> of
        (Returns ReturnedEarly, s) \<Rightarrow> (NoReply, memory s, events s)
      | (Returns (Fell msg), s) \<Rightarrow> (Reply msg, memory s, events s)
      | (Returns FellUnbound, s) \<Rightarrow> (Escapes unbound_msg, memory s, events s)
      | (Raises e, s) \<Rightarrow>
          (case remove_action uid s of
             (_, s') \<Rightarrow> (Reply (text_error_message e), memory s', events s')))"

section \<open>The audio handler\<close>

text \<open>The body of the \<^verbatim>\<open>try\<close>, lines 150 to 159.\<close>

definition audio_try :: "'r env \<Rightarrow> ustr \<Rightarrow> ustr \<Rightarrow> outgoing action" where
  "audio_try env uid input_audio_path =
     and_then (invoke (AudioTranscriptions input_audio_path whisper_1) is_successful
                 (audio_transcriptions env input_audio_path whisper_1))
       (\<lambda>(ok, response, error_message).
     and_then (raise_unless ok error_message) (\<lambda>_.
     and_then (compute (text_of env response)) (\<lambda>transcript.
     and_then (append_action uid role_user transcript) (\<lambda>_.
     and_then (get_action uid) (\<lambda>messages.
     and_then (invoke (ChatCompletions messages (Some gpt_35_turbo)) is_successful
                 (chat_completions env messages (Some gpt_35_turbo)))
       (\<lambda>(ok, response, error_message).
     and_then (raise_unless ok error_message) (\<lambda>_.
     and_then (compute (get_role_and_content env response)) (\<lambda>(ro, response).
     and_then (append_action uid ro response) (\<lambda>_.
     returns (TextSendMessage response))))))))))"

text \<open>The \<^verbatim>\<open>except\<close> clause of the audio handler, lines 162 to 165.\<close>

definition audio_error_message :: "ustr \<Rightarrow> outgoing" where
  "audio_error_message e =
     (if startswith e incorrect_key_prefix then TextSendMessage incorrect_key_text
      else TextSendMessage e)"

text \<open>
  \<^verbatim>\<open>handle_audio_message\<close>, lines 141 to 167, from the point where the audio has
  been written to the file \<open>input_audio_path\<close>.
\<close>

definition handle_audio_message ::
  "'r env \<Rightarrow> ustr \<Rightarrow> ustr \<Rightarrow> Memory \<Rightarrow> reply \<times> Memory \<times> event list" where
  "handle_audio_message env uid input_audio_path m =
     (case audio_try env uid input_audio_path \<lparr>memory = m, events = []\<rparr> of
        (Returns msg, s) \<Rightarrow> (Reply msg, memory s, events s)
      | (Raises e, s) \<Rightarrow>
          (case remove_action uid s of
             (_, s') \<Rightarrow> (Reply (audio_error_message e), memory s', events s')))"

section \<open>Runs of the memory and classes of events\<close>

text \<open>A sequence of \<^verbatim>\<open>append\<close> calls, each with its user, role and content.\<close>

fun append_all :: "Memory \<Rightarrow> (ustr \<times> ustr \<times> ustr) list \<Rightarrow> Memory" where
  "append_all m [] = m"
| "append_all m ((u, ro, c) # ops) = append_all (memory_append m u ro c) ops"

text \<open>The entries such a sequence appends for the user \<open>u\<close>, oldest first.\<close>

definition appended_by :: "ustr \<Rightarrow> (ustr \<times> ustr \<times> ustr) list \<Rightarrow> entry list" where
  "appended_by u ops =
     map (\<lambda>(v, ro, c). \<lparr>role = ro, content = c\<rparr>) (filter (\<lambda>(v, ro, c). v = u) ops)"

text \<open>
  What is left of \<open>es\<close> once pairs have been taken from its front until at most \<open>2 * n\<close>
  entries remain.
\<close>

definition window :: "nat \<Rightarrow> entry list \<Rightarrow> entry list" where
  "window n es = drop (2 * ((length es + 1 - 2 * n) div 2)) es"

text \<open>
  Events that leave the memory's contents alone (calls and reads), those among them that
  are no failure, and failed calls.
\<close>

definition inert :: "event \<Rightarrow> bool" where
  "inert ev = (case ev of Cap c b \<Rightarrow> True | MemGet u \<Rightarrow> True | _ \<Rightarrow> False)"

definition quiet :: "event \<Rightarrow> bool" where
  "quiet ev = (case ev of Cap c b \<Rightarrow> b | MemGet u \<Rightarrow> True | _ \<Rightarrow> False)"

definition failed :: "event \<Rightarrow> bool" where
  "failed ev = (case ev of Cap c b \<Rightarrow> \<not> b | _ \<Rightarrow> False)"

section \<open>Example collaborators\<close>

text \<open>
  Collaborators on which every call succeeds: a response object is its own text, the
  reply's role is \<^verbatim>\<open>assistant\<close>, a text is a URL when it starts with \<^verbatim>\<open>http\<close>, no
  URL is a video, and a page has one chunk.
\<close>

definition example_env :: "ustr env" where
  "example_env =
     \<lparr>image_generations = (\<lambda>prompt. Returns (True, ascii ''https://img.example/1.png'', [])),
      chat_completions = (\<lambda>messages model. Returns (True, ascii ''hello'', [])),
      audio_transcriptions = (\<lambda>path model. Returns (True, ascii ''what time is it'', [])),
      get_url_from_text =
        (\<lambda>t. Returns (if startswith t (ascii ''http'') then Some t else None)),
      retrieve_video_id = (\<lambda>t. Returns None),
      get_transcript_chunks = (\<lambda>v. Returns (True, [ascii ''a transcript''], [])),
      youtube_summarize = (\<lambda>model chunks. Returns (True, ascii ''a video summary'', [])),
      get_content_from_url = (\<lambda>url. Returns [ascii ''a page'']),
      website_summarize = (\<lambda>model chunks. Returns (True, ascii ''a page summary'', [])),
      get_role_and_content = (\<lambda>response. Returns (role_assistant, response)),
      data_0_url = (\<lambda>response. Returns response),
      text_of = (\<lambda>response. Returns response),
      OPENAI_MODEL_ENGINE = Some (ascii ''gpt-4'')\<rparr>"

definition example_memory :: Memory where
  "example_memory = new_Memory (ascii ''You are a helpful assistant.'') 2"

definition alice :: ustr where
  "alice = ascii ''U1234''"

text \<open>The same, but image generation is refused for a wrong API key.\<close>

definition bad_key_env :: "ustr env" where
  "bad_key_env =
     example_env\<lparr>image_generations :=
       (\<lambda>prompt. Returns (False, [], ascii ''Incorrect API key provided: sk-1234.''))\<rparr>"

text \<open>The same, but transcription and chat completion are refused for overload.\<close>

definition overloaded_env :: "ustr env" where
  "overloaded_env =
     example_env\<lparr>chat_completions := (\<lambda>messages model. Returns (False, [], overloaded_prefix)),
                  audio_transcriptions := (\<lambda>path model. Returns (False, [], overloaded_prefix))\<rparr>"

text \<open>The same, but no text can be taken from any page.\<close>

definition empty_page_env :: "ustr env" where
  "empty_page_env = example_env\<lparr>get_content_from_url := (\<lambda>url. Returns [])\<rparr>"

text \<open>The same, but what is heard in the audio reads as a command with a URL.\<close>

definition spoken_command_env :: "ustr env" where
  "spoken_command_env =
     example_env\<lparr>audio_transcriptions :=
       (\<lambda>path model. Returns (True, cmd_gpt @ ascii '' https://example.com/article'', []))\<rparr>"

text \<open>A memory in which one exchange of the user \<open>alice\<close> is stored.\<close>

definition chatty_memory :: Memory where
  "chatty_memory =
     memory_append (memory_append example_memory alice role_user (ascii ''hi''))
       alice role_assistant (ascii ''hello'')"

text \<open>Two Chinese texts: "you are a translator" and "hello".\<close>

definition translator_prompt :: ustr where
  "translator_prompt = [20320, 26159, 19968, 20491, 32763, 35695, 21729]"

definition ni_hao :: ustr where
  "ni_hao = [20320, 22909]"

section \<open>Routing as the command table reads\<close>

text \<open>
  The command table read as a specification: the prefixes are tried in the order of the
  table, the first that matches selects the command, and nothing else is looked at. It is
  compared below with the chain of tests in \<open>text_try\<close>.
\<close>

definition first_match :: "ustr \<Rightarrow> ustr option" where
  "first_match t = find (\<lambda>cmd. startswith t cmd) commands"

definition route_by_table :: "'r env \<Rightarrow> ustr \<Rightarrow> ustr \<Rightarrow> ending action" where
  "route_by_table env uid t =
     (case first_match t of
        None \<Rightarrow> returns ReturnedEarly
      | Some cmd \<Rightarrow>
          if cmd = cmd_help then returns (Fell (TextSendMessage help_text))
          else if cmd = cmd_system then
            and_then (change_system_message_action uid (strip (drop 5 t))) (\<lambda>_.
            returns (Fell (TextSendMessage system_ok_text)))
          else if cmd = cmd_clear then
            and_then (remove_action uid) (\<lambda>_.
            returns (Fell (TextSendMessage clear_ok_text)))
          else if cmd = cmd_image then
            and_then (image_command env uid t) (\<lambda>msg. returns (Fell msg))
          else
            and_then (gpt_command env uid t) (\<lambda>msg. returns (Fell msg)))"

text \<open>Text events handled one after the other, each on the memory the last one left.\<close>

fun handle_all :: "'r env \<Rightarrow> (ustr \<times> ustr) list \<Rightarrow> Memory \<Rightarrow> reply list \<times> Memory" where
  "handle_all env [] m = ([], m)"
| "handle_all env ((uid, raw_text) # rest) m =
     (case handle_text_message env uid raw_text m of
        (r, m', evs) \<Rightarrow> (case handle_all env rest m' of (rs, m'') \<Rightarrow> (r # rs, m'')))"

text \<open>The events by which a URL or a video is looked for, fetched or summarized.\<close>

definition detects :: "event \<Rightarrow> bool" where
  "detects ev =
     (case ev of
        Cap c b \<Rightarrow>
          (case c of
             GetUrlFromText t \<Rightarrow> True
           | RetrieveVideoId t \<Rightarrow> True
           | GetTranscriptChunks v \<Rightarrow> True
           | YoutubeSummarize md ch \<Rightarrow> True
           | GetContentFromUrl u \<Rightarrow> True
           | WebsiteSummarize md ch \<Rightarrow> True
           | _ \<Rightarrow> False)
      | _ \<Rightarrow> False)"

section \<open>What a failed call leaves in the log\<close>

text \<open>
  The text of the exception the handler is left with when a call fails: the text the
  call raised with, or the \<^verbatim>\<open>error_message\<close> it returned with
  \<^verbatim>\<open>is_successful\<close> false, which the handler raises. \<open>None\<close> when the
  call did not fail.
\<close>

definition triple_failure :: "(bool \<times> 'a \<times> ustr) outcome \<Rightarrow> ustr option" where
  "triple_failure r =
     (case r of
        Raises e \<Rightarrow> Some e
      | Returns t \<Rightarrow> (case t of (ok, x, error_message) \<Rightarrow>
          if ok then None else Some error_message))"

definition raise_text :: "'a outcome \<Rightarrow> ustr option" where
  "raise_text r = (case r of Raises e \<Rightarrow> Some e | Returns x \<Rightarrow> None)"

definition failure_text :: "'r env \<Rightarrow> call \<Rightarrow> ustr option" where
  "failure_text env c =
     (case c of
        ImageGenerations p \<Rightarrow> triple_failure (image_generations env p)
      | ChatCompletions ms md \<Rightarrow> triple_failure (chat_completions env ms md)
      | AudioTranscriptions a md \<Rightarrow> triple_failure (audio_transcriptions env a md)
      | GetUrlFromText t \<Rightarrow> raise_text (get_url_from_text env t)
      | RetrieveVideoId t \<Rightarrow> raise_text (retrieve_video_id env t)
      | GetTranscriptChunks v \<Rightarrow> triple_failure (get_transcript_chunks env v)
      | YoutubeSummarize md ch \<Rightarrow> triple_failure (youtube_summarize env md ch)
      | GetContentFromUrl u \<Rightarrow> raise_text (get_content_from_url env u)
      | WebsiteSummarize md ch \<Rightarrow> triple_failure (website_summarize env md ch))"

text \<open>
  The calls and reads logged by a command that raised with the text \<open>e\<close>: none of
  them failed, or the last is a failed call whose failure text is \<open>e\<close> and none
  before it failed.
\<close>

definition aborted :: "'r env \<Rightarrow> ustr \<Rightarrow> event list \<Rightarrow> bool" where
  "aborted env e mid =
     (list_all quiet mid \<or>
      (mid \<noteq> [] \<and> list_all quiet (butlast mid) \<and>
       (case last mid of
          Cap c b \<Rightarrow> \<not> b \<and> failure_text env c = Some e
        | _ \<Rightarrow> False)))"

text \<open>If the event is a chat completion, it was called on the messages \<open>ms\<close>.\<close>

definition chat_saw :: "entry list \<Rightarrow> event \<Rightarrow> bool" where
  "chat_saw ms ev =
     (case ev of
        Cap c b \<Rightarrow> (case c of ChatCompletions ms' md \<Rightarrow> ms' = ms | _ \<Rightarrow> True)
      | _ \<Rightarrow> True)"

section \<open>Properties of the memory\<close>

lemma append_all_snoc:
  "append_all m (ops @ [(u, ro, c)]) = memory_append (append_all m ops) u ro c"
  by (induction m ops rule: append_all.induct) simp_all

lemma lookup_memory_append_same:
  "lookup (memory_append m u ro c) u =
     (lookup m u)\<lparr>history :=
        evict (max_turns (lookup m u)) (history (lookup m u) @ [\<lparr>role = ro, content = c\<rparr>])\<rparr>"
  by (simp add: memory_append_def lookup_def Let_def)

lemma lookup_memory_append_other:
  "v \<noteq> u \<Longrightarrow> lookup (memory_append m u ro c) v = lookup m v"
  by (simp add: memory_append_def lookup_def Let_def fresh_record_def split: option.splits)

lemma evict_window:
  "evict n (window n es @ [e]) = window n (es @ [e])"
proof (cases "n = 0")
  case True
  have "length es \<le> 2 * ((length es + 1) div 2)" by arith
  moreover have "length es + 1 \<le> 2 * ((length es + 2) div 2)" by arith
  ultimately show ?thesis using True by (simp add: evict_def window_def)
next
  case False
  define k where "k = (length es + 1 - 2 * n) div 2"
  have k: "2 * k \<le> length es" using False unfolding k_def by arith
  have w: "window n es @ [e] = drop (2 * k) (es @ [e])"
    using k by (simp add: window_def k_def)
  have len: "length (window n es @ [e]) = length es + 1 - 2 * k"
    using k by (simp add: window_def k_def)
  show ?thesis
  proof (cases "2 * n < length es + 1 - 2 * k")
    case True
    then have "(length es + 2 - 2 * n) div 2 = k + 1" unfolding k_def by arith
    then have "window n (es @ [e]) = drop (2 + 2 * k) (es @ [e])"
      by (simp add: window_def del: drop_append)
    moreover have "evict n (window n es @ [e]) = drop 2 (drop (2 * k) (es @ [e]))"
      using True len w by (simp add: evict_def)
    ultimately show ?thesis by (simp only: drop_drop)
  next
    case False
    then have "(length es + 2 - 2 * n) div 2 = k" unfolding k_def by arith
    then have "window n (es @ [e]) = drop (2 * k) (es @ [e])"
      by (simp add: window_def del: drop_append)
    moreover have "evict n (window n es @ [e]) = drop (2 * k) (es @ [e])"
      using False len w by (simp add: evict_def)
    ultimately show ?thesis by (simp only:)
  qed
qed

lemma length_window: "length (window n es) \<le> 2 * n"
  unfolding window_def by simp

lemma lookup_append_all:
  "lookup (append_all (new_Memory sm n) ops) u =
     \<lparr>user_id = u, system_message = sm, history = window n (appended_by u ops), max_turns = n\<rparr>"
proof (induction ops rule: rev_induct)
  case Nil
  show ?case
    by (simp add: lookup_def new_Memory_def fresh_record_def window_def appended_by_def)
next
  case (snoc x ops)
  obtain v ro c where x: "x = (v, ro, c)" by (cases x)
  show ?case
  proof (cases "v = u")
    case True
    then show ?thesis using snoc x
      by (simp add: append_all_snoc lookup_memory_append_same appended_by_def evict_window)
  next
    case False
    then show ?thesis using snoc x
      by (simp add: append_all_snoc lookup_memory_append_other appended_by_def)
  qed
qed

lemma fst_memory_get: "fst (memory_get m u) = materialize (lookup m u)"
  by (simp add: memory_get_def Let_def)

text \<open>
  Claim C2. Take a memory as the process builds it, with system message \<open>sm\<close> and
  \<open>n\<close> turns, and any sequence of appends by any users. What \<^verbatim>\<open>get\<close> then returns
  for a user \<open>u\<close> is the system message as entry zero, followed by the entries appended
  for \<open>u\<close> with an even number of the oldest ones removed (whole pairs, oldest first):
  none while at most \<open>2 * n\<close> were appended, and never leaving more than \<open>2 * n\<close>.
\<close>

theorem memory_sliding_window:
  "fst (memory_get (append_all (new_Memory sm n) ops) u) =
     \<lparr>role = role_system, content = sm\<rparr> #
     drop (2 * ((length (appended_by u ops) + 1 - 2 * n) div 2)) (appended_by u ops)
   \<and> length (tl (fst (memory_get (append_all (new_Memory sm n) ops) u))) \<le> 2 * n
   \<and> min (length (appended_by u ops)) (2 * n - 1)
        \<le> length (tl (fst (memory_get (append_all (new_Memory sm n) ops) u)))"
proof -
  have g: "fst (memory_get (append_all (new_Memory sm n) ops) u) =
      \<lparr>role = role_system, content = sm\<rparr> # window n (appended_by u ops)"
    by (simp add: fst_memory_get lookup_append_all materialize_def)
  have lo: "min (length (appended_by u ops)) (2 * n - 1) \<le> length (window n (appended_by u ops))"
    unfolding window_def by simp
  show ?thesis
    using g lo length_window [of n "appended_by u ops"] by (simp add: window_def)
qed

section \<open>Properties of the handlers\<close>

lemmas action_defs = and_then_def returns_def raise_def compute_def invoke_def raise_unless_def
  append_action_def get_action_def remove_action_def change_system_message_action_def

lemmas string_defs = cmd_help_def cmd_system_def cmd_clear_def cmd_image_def cmd_gpt_def
  ascii_def startswith_def strip_def isspace_def

subsection \<open>No command is a prefix of another\<close>

lemma gpt_exclusive:
  "startswith t cmd_gpt \<Longrightarrow>
     \<not> startswith t cmd_help \<and> \<not> startswith t cmd_system \<and> \<not> startswith t cmd_clear \<and>
     \<not> startswith t cmd_image"
  by (auto simp: startswith_def cmd_help_def cmd_system_def cmd_clear_def cmd_image_def
      cmd_gpt_def ascii_def prefix_def)

lemma image_exclusive:
  "startswith t cmd_image \<Longrightarrow>
     \<not> startswith t cmd_help \<and> \<not> startswith t cmd_system \<and> \<not> startswith t cmd_clear"
  by (auto simp: startswith_def cmd_help_def cmd_system_def cmd_clear_def cmd_image_def
      prefix_def)

lemma clear_exclusive:
  "startswith t cmd_clear \<Longrightarrow> \<not> startswith t cmd_help \<and> \<not> startswith t cmd_system"
  by (auto simp: startswith_def cmd_help_def cmd_system_def cmd_clear_def prefix_def)

lemma system_exclusive:
  "startswith t cmd_system \<Longrightarrow> \<not> startswith t cmd_help"
  by (auto simp: startswith_def cmd_help_def cmd_system_def prefix_def)

lemma text_try_gpt:
  "startswith t cmd_gpt \<Longrightarrow>
     text_try env uid t = and_then (gpt_command env uid t) (\<lambda>msg. returns (Fell msg))"
  using gpt_exclusive [of t] by (simp add: text_try_def commands_def)

lemma text_try_image:
  "startswith t cmd_image \<Longrightarrow>
     text_try env uid t = and_then (image_command env uid t) (\<lambda>msg. returns (Fell msg))"
  using image_exclusive [of t] by (simp add: text_try_def commands_def)

lemma text_try_clear:
  "startswith t cmd_clear \<Longrightarrow>
     text_try env uid t =
       and_then (remove_action uid) (\<lambda>_. returns (Fell (TextSendMessage clear_ok_text)))"
  using clear_exclusive [of t] by (simp add: text_try_def commands_def)

lemma text_try_system:
  "startswith t cmd_system \<Longrightarrow>
     text_try env uid t =
       and_then (change_system_message_action uid (strip (drop 5 t)))
         (\<lambda>_. returns (Fell (TextSendMessage system_ok_text)))"
  using system_exclusive [of t] by (simp add: text_try_def commands_def)

subsection \<open>The events of a run\<close>

lemmas log_defs = quiet_def aborted_def chat_saw_def failure_text_def triple_failure_def
  raise_text_def succeeded_def is_successful_def returned_def

lemma summarize_youtube_run:
  "summarize_youtube env prompt s = (res, s') \<Longrightarrow>
     memory s' = memory s \<and>
     (\<exists>mid. events s' = events s @ mid \<and> (\<forall>ms. list_all (chat_saw ms) mid) \<and>
       (case res of
          Returns x \<Rightarrow> list_all quiet mid \<and> fst x = TextSendMessage (snd (snd x))
        | Raises e \<Rightarrow> aborted env e mid))"
  by (auto simp: summarize_youtube_def action_defs log_defs
      split: if_splits prod.splits outcome.splits)

lemma summarize_website_run:
  "summarize_website env url s = (res, s') \<Longrightarrow>
     memory s' = memory s \<and>
     (\<exists>mid. events s' = events s @ mid \<and> (\<forall>ms. list_all (chat_saw ms) mid) \<and>
       (case res of
          Returns x \<Rightarrow> list_all quiet mid \<and> fst x = TextSendMessage (snd (snd x))
        | Raises e \<Rightarrow> aborted env e mid))"
  by (auto simp: summarize_website_def action_defs log_defs
      split: if_splits prod.splits outcome.splits)

lemma chat_reply_run:
  "chat_reply env uid s = (res, s') \<Longrightarrow>
     memory s' = snd (memory_get (memory s) uid) \<and>
     (\<exists>mid. events s' = events s @ mid \<and>
       list_all (chat_saw (fst (memory_get (memory s) uid))) mid \<and>
       (case res of
          Returns x \<Rightarrow> list_all quiet mid \<and> fst x = TextSendMessage (snd (snd x))
        | Raises e \<Rightarrow> aborted env e mid))"
  by (auto simp: chat_reply_def action_defs log_defs
      split: if_splits prod.splits outcome.splits)


lemma snd_memory_get_append:
  "snd (memory_get (memory_append m u ro c) u) = memory_append m u ro c"
  by (simp add: memory_get_def memory_append_def lookup_def Let_def)

lemma gpt_command_run:
  assumes "gpt_command env uid t s = (res, s')"
  shows "(strip (drop 4 t) = [] \<and> res = Returns (TextSendMessage gpt_prompt_required_text) \<and>
          s' = s) \<or>
     (strip (drop 4 t) \<noteq> [] \<and>
      (\<exists>mid. list_all (chat_saw (fst (memory_get
                 (memory_append (memory s) uid role_user (strip (drop 4 t))) uid))) mid \<and>
       (case res of
          Raises e \<Rightarrow>
            events s' = events s @ MemAppend uid role_user (strip (drop 4 t)) # mid \<and>
            aborted env e mid \<and>
            memory s' = memory_append (memory s) uid role_user (strip (drop 4 t))
        | Returns msg \<Rightarrow> list_all quiet mid \<and> (\<exists>ro c. msg = TextSendMessage c \<and>
            events s' =
              events s @ MemAppend uid role_user (strip (drop 4 t)) # mid @ [MemAppend uid ro c]))))"
  using assms
  apply (simp add: gpt_command_def Let_def split: if_splits)
  apply (auto simp: action_defs log_defs snd_memory_get_append list_all_iff
      split: if_splits prod.splits outcome.splits
      dest!: summarize_youtube_run summarize_website_run chat_reply_run)
  done


lemma image_command_run:
  assumes "image_command env uid t s = (res, s')"
  shows "\<exists>mid. (\<forall>ms. list_all (chat_saw ms) mid) \<and>
       (case res of
          Raises e \<Rightarrow>
            events s' = events s @ MemAppend uid role_user (strip (drop 3 t)) # mid \<and>
            aborted env e mid \<and>
            memory s' = memory_append (memory s) uid role_user (strip (drop 3 t))
        | Returns msg \<Rightarrow> list_all quiet mid \<and> (\<exists>url. msg = ImageSendMessage url url \<and>
            events s' =
              events s @ MemAppend uid role_user (strip (drop 3 t)) # mid @
                [MemAppend uid role_assistant url]))"
  using assms
  by (auto simp: image_command_def Let_def action_defs log_defs
      split: if_splits prod.splits outcome.splits)

lemma quiet_not_failed: "list_all quiet mid \<Longrightarrow> \<not> list_ex failed mid"
  by (induction mid) (auto simp: quiet_def failed_def split: event.splits)

lemma text_try_returns:
  assumes "text_try env uid t s = (Returns x, s')"
  shows "x \<noteq> FellUnbound \<and> (\<exists>evs. events s' = events s @ evs \<and> \<not> list_ex failed evs)"
  using assms
  apply (simp add: text_try_def commands_def split: if_splits)
  apply (auto simp: action_defs failed_def
      split: if_splits prod.splits outcome.splits
      dest!: image_command_run gpt_command_run)
  using quiet_not_failed apply blast+
  done

lemma text_try_raises:
  assumes "text_try env uid t s = (Raises e, s')"
  shows "\<exists>p mid. events s' = events s @ MemAppend uid role_user p # mid \<and>
           aborted env e mid \<and>
           memory s' = memory_append (memory s) uid role_user p \<and>
           list_all (chat_saw (fst (memory_get (memory_append (memory s) uid role_user p) uid)))
             mid"
  using assms
  apply (simp add: text_try_def commands_def split: if_splits)
  apply (auto simp: action_defs
      split: if_splits prod.splits outcome.splits
      dest!: image_command_run gpt_command_run)
  done

lemma history_memory_remove: "history (lookup (memory_remove m u) u) = []"
  by (simp add: memory_remove_def lookup_def Let_def)

lemma aborted_failed:
  assumes "aborted env e mid" and "Cap c False \<in> set mid"
  shows "\<exists>pre. mid = pre @ [Cap c False] \<and> list_all quiet pre \<and> failure_text env c = Some e"
proof -
  have nq: "\<not> list_all quiet mid"
    using assms(2) by (force simp: list_all_iff quiet_def)
  with assms(1) have ne: "mid \<noteq> []" and q: "list_all quiet (butlast mid)"
    and l: "(case last mid of Cap c' b \<Rightarrow> \<not> b \<and> failure_text env c' = Some e | _ \<Rightarrow> False)"
    by (auto simp: aborted_def)
  have "Cap c False \<notin> set (butlast mid)"
    using q by (auto simp: list_all_iff quiet_def)
  moreover have "Cap c False \<in> set (butlast mid @ [last mid])"
    using assms(2) ne by simp
  ultimately have lm: "last mid = Cap c False"
    by auto
  have "mid = butlast mid @ [Cap c False]"
    using ne lm append_butlast_last_id [of mid] by simp
  moreover have "failure_text env c = Some e"
    using l lm by simp
  ultimately show ?thesis
    using q by blast
qed

subsection \<open>Failure of a call\<close>

text \<open>
  Claim C1. Whenever a call on a collaborator fails during a text command (it raises, or
  returns with \<^verbatim>\<open>is_successful\<close> false, on which the handler raises), the command
  is aborted there: the failed call is the last thing the command does, every call before
  it succeeded, and only \<^verbatim>\<open>remove\<close> follows. The user turn was appended first,
  before any call, and a chat completion, if the run has one, was called on the memory
  that holds it; nothing else is appended (no assistant turn). The reply is the text
  message for the error of the failed call, and the memory left is the one with the user's
  history cleared, so that the history is empty.
\<close>

theorem failed_call_clears_history:
  assumes "handle_text_message env uid raw_text m = (r, m', evs)"
    and "Cap c False \<in> set evs"
  shows "(\<exists>t. r = Reply (TextSendMessage t)) \<and>
         history (lookup m' uid) = [] \<and>
         tl (fst (memory_get m' uid)) = [] \<and>
         (\<exists>p mid. evs = MemAppend uid role_user p # mid @ [MemRemove uid] \<and> list_all inert mid) \<and>
         (\<exists>p pre e.
            evs = MemAppend uid role_user p # pre @ [Cap c False, MemRemove uid] \<and>
            list_all quiet pre \<and>
            list_all (chat_saw (fst (memory_get (memory_append m uid role_user p) uid))) evs \<and>
            failure_text env c = Some e \<and>
            r = Reply (text_error_message e) \<and>
            m' = memory_remove (memory_append m uid role_user p) uid)"
proof (cases "text_try env uid (strip raw_text) \<lparr>memory = m, events = []\<rparr>")
  case (Pair res s)
  show ?thesis
  proof (cases res)
    case (Returns x)
    from text_try_returns [of env uid "strip raw_text" "\<lparr>memory = m, events = []\<rparr>" x s]
    have x: "x \<noteq> FellUnbound" and ok: "\<not> list_ex failed (events s)"
      using Pair Returns by auto
    have "evs = events s"
      using assms(1) Pair Returns x
      by (cases x) (auto simp: handle_text_message_def Let_def)
    with ok assms(2) show ?thesis
      by (auto simp: list_ex_iff failed_def)
  next
    case (Raises e)
    from text_try_raises [of env uid "strip raw_text" "\<lparr>memory = m, events = []\<rparr>" e s]
    obtain p mid where ev: "events s = MemAppend uid role_user p # mid"
      and ab: "aborted env e mid"
      and ms: "memory s = memory_append m uid role_user p"
      and saw: "list_all (chat_saw (fst (memory_get (memory_append m uid role_user p) uid))) mid"
      using Pair Raises by auto
    have r: "r = Reply (text_error_message e)"
      and m': "m' = memory_remove (memory s) uid"
      and evs: "evs = events s @ [MemRemove uid]"
      using assms(1) Pair Raises
      by (auto simp: handle_text_message_def Let_def remove_action_def)
    have "Cap c False \<in> set mid"
      using assms(2) evs ev by auto
    from aborted_failed [OF ab this]
    obtain pre where pre: "mid = pre @ [Cap c False]" and q: "list_all quiet pre"
      and f: "failure_text env c = Some e"
      by blast
    have inert: "list_all inert mid"
      using q pre by (auto simp: list_all_iff quiet_def inert_def split: event.splits)
    have t: "\<exists>t. r = Reply (TextSendMessage t)"
      using r by (simp add: text_error_message_def)
    have h: "history (lookup m' uid) = []"
      using m' by (simp add: history_memory_remove)
    have g: "tl (fst (memory_get m' uid)) = []"
      using m' by (simp add: fst_memory_get materialize_def history_memory_remove)
    have sawall: "list_all (chat_saw (fst (memory_get (memory_append m uid role_user p) uid))) evs"
      using saw evs ev by (simp add: chat_saw_def)
    have shape: "evs = MemAppend uid role_user p # pre @ [Cap c False, MemRemove uid]"
      using evs ev pre by simp
    have old: "\<exists>p mid. evs = MemAppend uid role_user p # mid @ [MemRemove uid] \<and> list_all inert mid"
      using evs ev inert by auto
    have new: "\<exists>p pre e.
            evs = MemAppend uid role_user p # pre @ [Cap c False, MemRemove uid] \<and>
            list_all quiet pre \<and>
            list_all (chat_saw (fst (memory_get (memory_append m uid role_user p) uid))) evs \<and>
            failure_text env c = Some e \<and>
            r = Reply (text_error_message e) \<and>
            m' = memory_remove (memory_append m uid role_user p) uid"
      using shape q sawall f r m' ms
      by (intro exI [of _ p] exI [of _ pre] exI [of _ e]) simp
    show ?thesis
      by (rule conjI [OF t conjI [OF h conjI [OF g conjI [OF old new]]]])
  qed
qed

text \<open>The image command with a wrong API key: the call fails and the history is cleared.\<close>

theorem failed_call_clears_history_witness:
  "Cap (ImageGenerations (ascii ''a red cat'')) False
     \<in> set (snd (snd (handle_text_message bad_key_env alice
                         (cmd_image @ ascii '' a red cat'') example_memory))) \<and>
   fst (handle_text_message bad_key_env alice (cmd_image @ ascii '' a red cat'') example_memory)
     = Reply (TextSendMessage incorrect_key_text) \<and>
   history (lookup (fst (snd (handle_text_message bad_key_env alice
                                (cmd_image @ ascii '' a red cat'') example_memory))) alice) = []"
proof -
  have run: "handle_text_message bad_key_env alice (cmd_image @ ascii '' a red cat'')
        example_memory =
      (Reply (TextSendMessage incorrect_key_text),
       memory_remove (memory_append example_memory alice role_user (ascii ''a red cat'')) alice,
       [MemAppend alice role_user (ascii ''a red cat''),
        Cap (ImageGenerations (ascii ''a red cat'')) False,
        MemRemove alice])"
    by (simp add: handle_text_message_def text_try_def commands_def image_command_def Let_def
        action_defs succeeded_def is_successful_def string_defs bad_key_env_def example_env_def
        text_error_message_def incorrect_key_prefix_def)
  have c: "Cap (ImageGenerations (ascii ''a red cat'')) False
      \<in> set [MemAppend alice role_user (ascii ''a red cat''),
              Cap (ImageGenerations (ascii ''a red cat'')) False,
              MemRemove alice]"
    by simp
  from failed_call_clears_history [OF run c] run c show ?thesis
    by simp
qed

subsection \<open>The image command\<close>

text \<open>
  Claim C10. When the image command succeeds, the message sent has the URL of the
  response as both its original content URL and its preview image URL, and the entry
  appended for the assistant has that URL as its content.
\<close>

theorem image_same_url:
  assumes "startswith (strip raw_text) cmd_image"
    and "image_generations env (strip (drop 3 (strip raw_text))) =
           Returns (True, response, error_message)"
    and "data_0_url env response = Returns url"
  shows "handle_text_message env uid raw_text m =
     (Reply (ImageSendMessage url url),
      memory_append (memory_append m uid role_user (strip (drop 3 (strip raw_text))))
        uid role_assistant url,
      [MemAppend uid role_user (strip (drop 3 (strip raw_text))),
       Cap (ImageGenerations (strip (drop 3 (strip raw_text)))) True,
       MemAppend uid role_assistant url])"
  using assms
  by (simp add: handle_text_message_def text_try_image image_command_def Let_def action_defs
      succeeded_def is_successful_def)

theorem image_same_url_witness:
  "handle_text_message example_env alice (cmd_image @ ascii '' a red cat'') example_memory =
     (Reply (ImageSendMessage (ascii ''https://img.example/1.png'')
               (ascii ''https://img.example/1.png'')),
      memory_append (memory_append example_memory alice role_user (ascii ''a red cat''))
        alice role_assistant (ascii ''https://img.example/1.png''),
      [MemAppend alice role_user (ascii ''a red cat''),
       Cap (ImageGenerations (ascii ''a red cat'')) True,
       MemAppend alice role_assistant (ascii ''https://img.example/1.png'')])"
  using image_same_url [of "cmd_image @ ascii '' a red cat''" example_env
      "ascii ''https://img.example/1.png''" "[]" "ascii ''https://img.example/1.png''"
      alice example_memory]
  by (simp add: string_defs example_env_def)

subsection \<open>A page without text\<close>

text \<open>
  Claim C7. When the prompt of the chat command \<open>cmd_gpt\<close> holds a URL that is no
  video and no text can be taken from the page (zero chunks), the handler replies with
  the text \<open>no_website_text\<close>, and the user's history is cleared: the user turn that
  was appended is removed again.
\<close>

theorem empty_page_clears_history:
  assumes "startswith (strip raw_text) cmd_gpt"
    and "strip (drop 4 (strip raw_text)) = prompt"
    and "prompt \<noteq> []"
    and "get_url_from_text env prompt = Returns url"
    and "truthy url"
    and "retrieve_video_id env prompt = Returns video_id"
    and "\<not> truthy video_id"
    and "get_content_from_url env url = Returns []"
  shows "handle_text_message env uid raw_text m =
     (Reply (TextSendMessage no_website_text),
      memory_remove (memory_append m uid role_user prompt) uid,
      [MemAppend uid role_user prompt,
       Cap (GetUrlFromText prompt) True,
       Cap (RetrieveVideoId prompt) True,
       Cap (GetContentFromUrl url) True,
       MemRemove uid]) \<and>
     history (lookup (memory_remove (memory_append m uid role_user prompt) uid) uid) = []"
proof -
  have ne: "no_website_text \<noteq> []"
    "\<not> startswith no_website_text incorrect_key_prefix"
    "\<not> startswith no_website_text overloaded_prefix"
    by (simp_all add: no_website_text_def startswith_def incorrect_key_prefix_def
        overloaded_prefix_def ascii_def)
  show ?thesis using assms ne
    by (simp add: handle_text_message_def text_try_gpt gpt_command_def summarize_website_def
        Let_def action_defs succeeded_def returned_def text_error_message_def
        history_memory_remove)
qed

theorem empty_page_clears_history_witness:
  "handle_text_message empty_page_env alice (ascii ''/GPT https://example.com/article'')
     example_memory =
     (Reply (TextSendMessage no_website_text),
      memory_remove (memory_append example_memory alice role_user
        (ascii ''https://example.com/article'')) alice,
      [MemAppend alice role_user (ascii ''https://example.com/article''),
       Cap (GetUrlFromText (ascii ''https://example.com/article'')) True,
       Cap (RetrieveVideoId (ascii ''https://example.com/article'')) True,
       Cap (GetContentFromUrl (Some (ascii ''https://example.com/article''))) True,
       MemRemove alice])"
  using empty_page_clears_history [of "ascii ''/GPT https://example.com/article''"
      "ascii ''https://example.com/article''" empty_page_env
      "Some (ascii ''https://example.com/article'')" None alice example_memory]
  by (simp add: string_defs empty_page_env_def example_env_def truthy_def)

subsection \<open>A command without its prompt\<close>

text \<open>
  Claim C5. With nothing after the prefix, the chat command \<open>cmd_gpt\<close> replies with
  its guidance text, calls nothing and leaves the memory alone. The image command
  \<open>cmd_image\<close> has no such test: it appends an empty user turn and calls image
  generation with the empty prompt, whatever the collaborators do.
\<close>

theorem image_without_prompt:
  "take 2 (snd (snd (handle_text_message env uid cmd_image m))) =
     [MemAppend uid role_user [],
      Cap (ImageGenerations []) (succeeded is_successful (image_generations env []))] \<and>
   handle_text_message env uid cmd_gpt m =
     (Reply (TextSendMessage gpt_prompt_required_text), m, [])"
proof -
  have s: "strip cmd_image = cmd_image" "strip cmd_gpt = cmd_gpt"
    by (simp_all add: string_defs)
  have i: "startswith cmd_image cmd_image" "startswith cmd_gpt cmd_gpt"
    by (simp_all add: startswith_def)
  have d: "strip (drop 3 cmd_image) = []" "strip (drop 4 cmd_gpt) = []"
    by (simp_all add: string_defs)
  have g: "handle_text_message env uid cmd_gpt m =
     (Reply (TextSendMessage gpt_prompt_required_text), m, [])"
    using s i d
    by (simp add: handle_text_message_def text_try_gpt gpt_command_def Let_def action_defs)
  have "take 2 (snd (snd (handle_text_message env uid cmd_image m))) =
     [MemAppend uid role_user [],
      Cap (ImageGenerations []) (succeeded is_successful (image_generations env []))]"
    using s i d
    by (auto simp: handle_text_message_def text_try_image image_command_def Let_def action_defs
        split: outcome.splits prod.splits ending.splits)
  with g show ?thesis by simp
qed

subsection \<open>Error texts\<close>

text \<open>
  Claim C4. An error text that starts with \<open>overloaded_prefix\<close> is replaced by
  \<open>overloaded_text\<close> in the text handler and passed on as it is in the audio
  handler, whose \<^verbatim>\<open>except\<close> clause tests for \<open>incorrect_key_prefix\<close> only.
\<close>

theorem audio_overloaded_passes_through:
  "fst (handle_audio_message overloaded_env alice (ascii ''a.m4a'') example_memory) =
     Reply (TextSendMessage overloaded_prefix) \<and>
   fst (handle_text_message overloaded_env alice (ascii ''/GPT hello'') example_memory) =
     Reply (TextSendMessage overloaded_text) \<and>
   overloaded_prefix \<noteq> overloaded_text"
  by (simp add: handle_audio_message_def audio_try_def handle_text_message_def text_try_def
      commands_def gpt_command_def chat_reply_def Let_def action_defs succeeded_def
      is_successful_def returned_def string_defs overloaded_env_def example_env_def truthy_def
      text_error_message_def audio_error_message_def incorrect_key_prefix_def
      overloaded_prefix_def overloaded_text_def memory_get_def)

subsection \<open>The audio handler\<close>

text \<open>
  Claim C9. The chat completion of the audio handler is called with the fixed model
  \<^verbatim>\<open>gpt-3.5-turbo\<close>, here with \<^verbatim>\<open>OPENAI_MODEL_ENGINE\<close> set to \<^verbatim>\<open>gpt-4\<close>.
\<close>

theorem audio_chat_model_is_fixed:
  "snd (snd (handle_audio_message example_env alice (ascii ''a.m4a'') example_memory)) =
     [Cap (AudioTranscriptions (ascii ''a.m4a'') whisper_1) True,
      MemAppend alice role_user (ascii ''what time is it''),
      MemGet alice,
      Cap (ChatCompletions
             [\<lparr>role = role_system, content = ascii ''You are a helpful assistant.''\<rparr>,
              \<lparr>role = role_user, content = ascii ''what time is it''\<rparr>]
             (Some gpt_35_turbo)) True,
      MemAppend alice role_assistant (ascii ''hello'')] \<and>
   OPENAI_MODEL_ENGINE example_env = Some (ascii ''gpt-4'') \<and>
   Some gpt_35_turbo \<noteq> OPENAI_MODEL_ENGINE example_env"
  by (simp add: handle_audio_message_def audio_try_def Let_def action_defs succeeded_def
      is_successful_def example_env_def example_memory_def new_Memory_def alice_def
      memory_get_def memory_append_def lookup_def fresh_record_def materialize_def evict_def
      gpt_35_turbo_def role_user_def ascii_def)

lemma audio_try_events:
  "audio_try env uid path \<lparr>memory = m, events = []\<rparr> = (res, s) \<Longrightarrow>
     (\<exists>b rest. events s = Cap (AudioTranscriptions path whisper_1) b # rest) \<and>
     \<not> list_ex detects (events s)"
  by (auto simp: audio_try_def action_defs detects_def
      split: if_splits prod.splits outcome.splits)

text \<open>
  Claim C8. An audio event is handled by transcribing first; when that and the chat
  completion succeed, the run is: transcription, the transcript appended as the user
  turn, the memory read, chat completion over what was read, the reply appended under
  the role it came with. Whatever the collaborators do and whatever the transcript says
  (a command, a URL), the run starts with the transcription and never looks for a URL or
  a video.
\<close>

theorem audio_direct_chat:
  assumes "audio_transcriptions env path whisper_1 = Returns (True, response, e1)"
    and "text_of env response = Returns transcript"
    and "chat_completions env (fst (memory_get (memory_append m uid role_user transcript) uid))
           (Some gpt_35_turbo) = Returns (True, response', e2)"
    and "get_role_and_content env response' = Returns (ro, c)"
  shows "handle_audio_message env uid path m =
     (Reply (TextSendMessage c),
      memory_append (snd (memory_get (memory_append m uid role_user transcript) uid)) uid ro c,
      [Cap (AudioTranscriptions path whisper_1) True,
       MemAppend uid role_user transcript,
       MemGet uid,
       Cap (ChatCompletions (fst (memory_get (memory_append m uid role_user transcript) uid))
              (Some gpt_35_turbo)) True,
       MemAppend uid ro c]) \<and>
     \<not> list_ex detects (snd (snd (handle_audio_message env' uid' path' m'))) \<and>
     (\<exists>b rest. snd (snd (handle_audio_message env' uid' path' m')) =
        Cap (AudioTranscriptions path' whisper_1) b # rest)"
proof -
  have a: "handle_audio_message env uid path m =
     (Reply (TextSendMessage c),
      memory_append (snd (memory_get (memory_append m uid role_user transcript) uid)) uid ro c,
      [Cap (AudioTranscriptions path whisper_1) True,
       MemAppend uid role_user transcript,
       MemGet uid,
       Cap (ChatCompletions (fst (memory_get (memory_append m uid role_user transcript) uid))
              (Some gpt_35_turbo)) True,
       MemAppend uid ro c])"
    using assms
    by (simp add: handle_audio_message_def audio_try_def action_defs succeeded_def
        is_successful_def case_prod_unfold)
  obtain res s where t: "audio_try env' uid' path' \<lparr>memory = m', events = []\<rparr> = (res, s)"
    by (cases "audio_try env' uid' path' \<lparr>memory = m', events = []\<rparr>")
  have "snd (snd (handle_audio_message env' uid' path' m')) = events s \<or>
        snd (snd (handle_audio_message env' uid' path' m')) = events s @ [MemRemove uid']"
    using t by (cases res) (simp_all add: handle_audio_message_def remove_action_def)
  with audio_try_events [OF t] a show ?thesis
    by (auto simp: detects_def)
qed

theorem audio_direct_chat_witness:
  "handle_audio_message spoken_command_env alice (ascii ''a.m4a'') example_memory =
     (Reply (TextSendMessage (ascii ''hello'')),
      memory_append (snd (memory_get (memory_append example_memory alice role_user
          (cmd_gpt @ ascii '' https://example.com/article'')) alice)) alice role_assistant
        (ascii ''hello''),
      [Cap (AudioTranscriptions (ascii ''a.m4a'') whisper_1) True,
       MemAppend alice role_user (cmd_gpt @ ascii '' https://example.com/article''),
       MemGet alice,
       Cap (ChatCompletions
              (fst (memory_get (memory_append example_memory alice role_user
                 (cmd_gpt @ ascii '' https://example.com/article'')) alice))
              (Some gpt_35_turbo)) True,
       MemAppend alice role_assistant (ascii ''hello'')])"
  using audio_direct_chat [where env = spoken_command_env and path = "ascii ''a.m4a''"
      and response = "cmd_gpt @ ascii '' https://example.com/article''" and ?e1.0 = "[]"
      and transcript = "cmd_gpt @ ascii '' https://example.com/article''"
      and m = example_memory and uid = alice and response' = "ascii ''hello''" and ?e2.0 = "[]"
      and ro = role_assistant and c = "ascii ''hello''" and env' = spoken_command_env
      and uid' = alice and path' = "ascii ''a.m4a''" and m' = example_memory]
  by (simp add: spoken_command_env_def example_env_def)

subsection \<open>Routing\<close>

lemma commands_distinct:
  "cmd_system \<noteq> cmd_help" "cmd_clear \<noteq> cmd_help" "cmd_clear \<noteq> cmd_system"
  "cmd_image \<noteq> cmd_help" "cmd_image \<noteq> cmd_system" "cmd_image \<noteq> cmd_clear"
  "cmd_gpt \<noteq> cmd_help" "cmd_gpt \<noteq> cmd_system" "cmd_gpt \<noteq> cmd_clear" "cmd_gpt \<noteq> cmd_image"
  by (simp_all add: cmd_help_def cmd_system_def cmd_clear_def cmd_image_def cmd_gpt_def ascii_def)

lemma text_try_route: "text_try env uid t = route_by_table env uid t"
  by (simp add: text_try_def route_by_table_def first_match_def commands_def commands_distinct)

lemma unmatched_noop:
  "first_match (strip raw_text) = None \<Longrightarrow> handle_text_message env uid raw_text m = (NoReply, m, [])"
  by (simp add: handle_text_message_def text_try_route route_by_table_def returns_def)

lemma unmatched_repeated:
  "first_match (strip raw_text) = None \<Longrightarrow>
     handle_all env (replicate k (uid, raw_text)) m = (replicate k NoReply, m)"
  by (induction k) (simp_all add: unmatched_noop)

lemma clear_handled:
  "startswith (strip raw_text) cmd_clear \<Longrightarrow>
     handle_text_message env uid raw_text m =
       (Reply (TextSendMessage clear_ok_text), memory_remove m uid, [MemRemove uid])"
  by (simp add: handle_text_message_def text_try_clear action_defs)

text \<open>
  Claim C3, as amended. The stripped text is matched against the five prefixes of
  \<open>commands\<close> in their order and the first match alone selects what is done: the
  chain of tests in the handler is the routing by the table. A text that starts with
  \<open>cmd_clear\<close> is handled by the clear command whatever follows the prefix. A text
  that matches no prefix gets no reply and changes nothing, however often it is
  delivered.
\<close>

theorem first_match_routing:
  "text_try env uid t = route_by_table env uid t \<and>
   (startswith (strip raw_c) cmd_clear \<longrightarrow>
      handle_text_message env uid raw_c m =
        (Reply (TextSendMessage clear_ok_text), memory_remove m uid, [MemRemove uid])) \<and>
   (first_match (strip raw_u) = None \<longrightarrow>
      handle_text_message env uid raw_u m = (NoReply, m, []) \<and>
      handle_all env (replicate k (uid, raw_u)) m = (replicate k NoReply, m))"
  using text_try_route [of env uid t] clear_handled [of raw_c env uid m]
    unmatched_noop [of raw_u env uid m] unmatched_repeated [of raw_u env k uid m]
  by blast

theorem first_match_routing_witness:
  "handle_text_message example_env alice (cmd_clear @ ascii '' extra text'') chatty_memory =
     (Reply (TextSendMessage clear_ok_text), memory_remove chatty_memory alice, [MemRemove alice]) \<and>
   handle_text_message example_env alice (ascii ''hello'') chatty_memory = (NoReply, chatty_memory, []) \<and>
   handle_all example_env (replicate 3 (alice, ascii ''hello'')) chatty_memory =
     (replicate 3 NoReply, chatty_memory)"
proof -
  have c: "startswith (strip (cmd_clear @ ascii '' extra text'')) cmd_clear"
    by (simp add: string_defs)
  have u: "first_match (strip (ascii ''hello'')) = None"
    by (simp add: first_match_def commands_def string_defs)
  from first_match_routing [where raw_c = "cmd_clear @ ascii '' extra text''"
      and raw_u = "ascii ''hello''" and env = example_env and uid = alice and m = chatty_memory
      and k = 3 and t = "[]"] c u
  show ?thesis by simp
qed

text \<open>
  The Latin spelling \<^verbatim>\<open>/clear extra text\<close> is none of the prefixes: no reply, and the
  stored exchange stays.
\<close>

theorem clear_literal_counterexample:
  "handle_text_message example_env alice (ascii ''/clear extra text'') chatty_memory =
     (NoReply, chatty_memory, []) \<and>
   history (lookup chatty_memory alice) =
     [\<lparr>role = role_user, content = ascii ''hi''\<rparr>,
      \<lparr>role = role_assistant, content = ascii ''hello''\<rparr>]"
proof -
  have "first_match (strip (ascii ''/clear extra text'')) = None"
    by (simp add: first_match_def commands_def string_defs)
  then have "handle_text_message example_env alice (ascii ''/clear extra text'') chatty_memory =
     (NoReply, chatty_memory, [])"
    by (rule unmatched_noop)
  moreover have "history (lookup chatty_memory alice) =
     [\<lparr>role = role_user, content = ascii ''hi''\<rparr>,
      \<lparr>role = role_assistant, content = ascii ''hello''\<rparr>]"
    by (simp add: chatty_memory_def example_memory_def new_Memory_def memory_append_def
        lookup_def fresh_record_def evict_def Let_def)
  ultimately show ?thesis by simp
qed

subsection \<open>System message, then chat\<close>

lemma system_message_after_change:
  "system_message (lookup (memory_append (memory_change_system_message m u t) u ro c) u) = t"
  by (simp add: memory_append_def memory_change_system_message_def lookup_def Let_def)

text \<open>
  Claim C6, as amended. After the system-message command \<open>cmd_system\<close> with the text
  \<open>sysmsg\<close>, a chat command \<open>cmd_gpt\<close> whose prompt holds no URL passes to chat
  completion a sequence whose first entry is the system message \<open>sysmsg\<close>; when the
  completion succeeds with the role \<^verbatim>\<open>assistant\<close>, the handler has appended
  one user entry (before the call) and one assistant entry (after it), and nothing else.
\<close>

theorem system_then_chat:
  assumes "startswith (strip raw1) cmd_system"
    and "strip (drop 5 (strip raw1)) = sysmsg"
    and "startswith (strip raw2) cmd_gpt"
    and "strip (drop 4 (strip raw2)) = prompt"
    and "prompt \<noteq> []"
    and "m1 = memory_change_system_message m uid sysmsg"
    and "m2 = memory_append m1 uid role_user prompt"
    and "get_url_from_text env prompt = Returns url"
    and "\<not> truthy url"
    and "chat_completions env (fst (memory_get m2 uid)) (OPENAI_MODEL_ENGINE env) =
           Returns (True, response, e)"
    and "get_role_and_content env response = Returns (role_assistant, c)"
  shows "handle_text_message env uid raw1 m =
           (Reply (TextSendMessage system_ok_text), m1, [MemChangeSystemMessage uid sysmsg]) \<and>
         handle_text_message env uid raw2 m1 =
           (Reply (TextSendMessage c),
            memory_append (snd (memory_get m2 uid)) uid role_assistant c,
            [MemAppend uid role_user prompt,
             Cap (GetUrlFromText prompt) True,
             MemGet uid,
             Cap (ChatCompletions (fst (memory_get m2 uid)) (OPENAI_MODEL_ENGINE env)) True,
             MemAppend uid role_assistant c]) \<and>
         hd (fst (memory_get m2 uid)) = \<lparr>role = role_system, content = sysmsg\<rparr>"
proof -
  have a: "handle_text_message env uid raw1 m =
           (Reply (TextSendMessage system_ok_text), m1, [MemChangeSystemMessage uid sysmsg])"
    using assms(1,2,6) by (simp add: handle_text_message_def text_try_system action_defs)
  have b: "handle_text_message env uid raw2 m1 =
           (Reply (TextSendMessage c),
            memory_append (snd (memory_get m2 uid)) uid role_assistant c,
            [MemAppend uid role_user prompt,
             Cap (GetUrlFromText prompt) True,
             MemGet uid,
             Cap (ChatCompletions (fst (memory_get m2 uid)) (OPENAI_MODEL_ENGINE env)) True,
             MemAppend uid role_assistant c])"
    using assms(3-5,7-11)
    by (simp add: handle_text_message_def text_try_gpt gpt_command_def chat_reply_def Let_def
        action_defs succeeded_def is_successful_def returned_def case_prod_unfold)
  have c: "hd (fst (memory_get m2 uid)) = \<lparr>role = role_system, content = sysmsg\<rparr>"
    using assms(6,7) by (simp add: fst_memory_get materialize_def system_message_after_change)
  from a b c show ?thesis by simp
qed

theorem system_then_chat_witness:
  "handle_text_message example_env alice (cmd_system @ [32] @ translator_prompt) example_memory =
     (Reply (TextSendMessage system_ok_text),
      memory_change_system_message example_memory alice translator_prompt,
      [MemChangeSystemMessage alice translator_prompt]) \<and>
   snd (snd (handle_text_message example_env alice (cmd_gpt @ [32] @ ni_hao)
     (memory_change_system_message example_memory alice translator_prompt))) =
     [MemAppend alice role_user ni_hao,
      Cap (GetUrlFromText ni_hao) True,
      MemGet alice,
      Cap (ChatCompletions
             [\<lparr>role = role_system, content = translator_prompt\<rparr>,
              \<lparr>role = role_user, content = ni_hao\<rparr>]
             (Some (ascii ''gpt-4''))) True,
      MemAppend alice role_assistant (ascii ''hello'')]"
proof -
  have g: "fst (memory_get (memory_append
        (memory_change_system_message example_memory alice translator_prompt)
        alice role_user ni_hao) alice) =
      [\<lparr>role = role_system, content = translator_prompt\<rparr>,
       \<lparr>role = role_user, content = ni_hao\<rparr>]"
    by (simp add: memory_get_def memory_append_def memory_change_system_message_def lookup_def
        fresh_record_def materialize_def evict_def Let_def example_memory_def new_Memory_def)
  have u: "\<not> startswith ni_hao (ascii ''http'')"
    by (simp add: ni_hao_def string_defs)
  from system_then_chat [where ?raw1.0 = "cmd_system @ [32] @ translator_prompt"
      and sysmsg = translator_prompt and ?raw2.0 = "cmd_gpt @ [32] @ ni_hao" and prompt = ni_hao
      and ?m1.0 = "memory_change_system_message example_memory alice translator_prompt"
      and m = example_memory and uid = alice
      and ?m2.0 = "memory_append
        (memory_change_system_message example_memory alice translator_prompt)
        alice role_user ni_hao"
      and env = example_env and url = None and response = "ascii ''hello''" and e = "[]"
      and c = "ascii ''hello''"] g u
  show ?thesis
    by (simp add: string_defs translator_prompt_def ni_hao_def example_env_def truthy_def)
qed

text \<open>
  The Latin spellings \<^verbatim>\<open>/system\<close> and \<^verbatim>\<open>/chat\<close> are none of the prefixes: no
  reply, no call, no change.
\<close>

theorem system_chat_literal_counterexample:
  "handle_text_message example_env alice (ascii ''/system '' @ translator_prompt) example_memory =
     (NoReply, example_memory, []) \<and>
   handle_text_message example_env alice (ascii ''/chat '' @ ni_hao) example_memory =
     (NoReply, example_memory, [])"
  by (simp add: handle_text_message_def text_try_def commands_def returns_def string_defs
      translator_prompt_def ni_hao_def)

end
